theory Spec2Isabelle
  imports Complex_Main "HOL-Library.Sublist"
begin

section \<open>Path matching (PathMatcher)\<close>

text \<open>
  The three applications share \<^verbatim>\<open>normalize_path\<close> and \<^verbatim>\<open>match_annotation_path\<close>
  (keypoint_labeler.py 344-348 and 385-418, keypoint_labelerv2.py 430-434 and 471-504).
  A Python argument that may be \<^verbatim>\<open>None\<close> is a \<open>string option\<close>.
  \<^verbatim>\<open>os.path.basename\<close> is the POSIX one: everything after the last slash.
\<close>

definition normalize_path :: "string option \<Rightarrow> string option" where
  "normalize_path path =
     (case path of
        None \<Rightarrow> None
      | Some p \<Rightarrow> Some (map (\<lambda>c. if c = CHR 0x5C then CHR ''/'' else c) p))"

text \<open>\<^verbatim>\<open>str.split('/')\<close>: never empty, one more part than there are slashes.\<close>

fun split_slash :: "string \<Rightarrow> string list" where
  "split_slash [] = [[]]"
| "split_slash (c # cs) =
     (if c = CHR ''/'' then [] # split_slash cs
      else (case split_slash cs of
              [] \<Rightarrow> [[c]]
            | p # ps \<Rightarrow> (c # p) # ps))"

text \<open>\<^verbatim>\<open>posixpath.basename\<close>: \<^verbatim>\<open>p[p.rfind('/') + 1:]\<close>.\<close>

definition basename :: "string \<Rightarrow> string" where
  "basename p = rev (takeWhile (\<lambda>c. c \<noteq> CHR ''/'') (rev p))"

text \<open>\<^verbatim>\<open>s.endswith(t)\<close>.\<close>

definition endswith :: "string \<Rightarrow> string \<Rightarrow> bool" where
  "endswith s t = (length t \<le> length s \<and> drop (length s - length t) s = t)"

text \<open>
  The Python slice \<^verbatim>\<open>xs[-k:]\<close> for \<open>k \<ge> 1\<close>: the last \<open>k\<close> elements, and the whole
  list when it has fewer than \<open>k\<close>.
\<close>

definition last_slice :: "nat \<Rightarrow> 'a list \<Rightarrow> 'a list" where
  "last_slice k xs = drop (length xs - k) xs"

text \<open>
  The loop \<^verbatim>\<open>for i in range(len(img_parts)): if img_parts[i:] == ann_parts[-len(img_parts[i:]):]: return True\<close>.
\<close>

definition segment_suffix_rule :: "string list \<Rightarrow> string list \<Rightarrow> bool" where
  "segment_suffix_rule img_parts ann_parts =
     list_ex (\<lambda>i. drop i img_parts = last_slice (length (drop i img_parts)) ann_parts)
       [0..<length img_parts]"

text \<open>\<^verbatim>\<open>not path\<close> for a path that is \<^verbatim>\<open>None\<close> or a string: true for \<^verbatim>\<open>None\<close> and for \<^verbatim>\<open>''\<close>.\<close>

definition falsy_path :: "string option \<Rightarrow> bool" where
  "falsy_path path = (path = None \<or> path = Some [])"

definition match_annotation_path :: "string option \<Rightarrow> string option \<Rightarrow> bool" where
  "match_annotation_path image_rel_path annotation_path =
     (if falsy_path image_rel_path \<or> falsy_path annotation_path then False
      else
        (case (normalize_path image_rel_path, normalize_path annotation_path) of
           (Some img_path_norm, Some ann_path_norm) \<Rightarrow>
             if img_path_norm = ann_path_norm then True
             else if basename img_path_norm = basename ann_path_norm then True
             else if endswith img_path_norm ann_path_norm \<or> endswith ann_path_norm img_path_norm
               then True
             else segment_suffix_rule (split_slash img_path_norm) (split_slash ann_path_norm)
         | _ \<Rightarrow> False))"

section \<open>Data model\<close>

text \<open>
  Exceptions of the Python code that the modelled paths can raise.
\<close>

datatype py_error = TypeError | ValueError | ZeroDivisionError | IndexError | KeyError
  | AttributeError

text \<open>
  A keypoint entry of the native JSON document is \<^verbatim>\<open>null\<close> or an array
  \<^verbatim>\<open>[x, y]\<close> / \<^verbatim>\<open>[x, y, v]\<close>. The code never checks the element types before it
  computes with them, so an element is a number, a string that is not a numeral, or
  \<^verbatim>\<open>null\<close>. Python floats are taken as reals (rounding and overflow are not modelled).
\<close>

datatype coord = Num real | Str | Null

datatype keypoint = KNone | KList "coord list"

text \<open>\<^verbatim>\<open>float(v)\<close> and \<^verbatim>\<open>int(v)\<close> (truncation towards zero).\<close>

fun py_float :: "coord \<Rightarrow> py_error + real" where
  "py_float (Num r) = Inr r"
| "py_float Str = Inl ValueError"
| "py_float Null = Inl TypeError"

definition trunc :: "real \<Rightarrow> int" where
  "trunc r = (if 0 \<le> r then \<lfloor>r\<rfloor> else \<lceil>r\<rceil>)"

fun py_int :: "coord \<Rightarrow> py_error + int" where
  "py_int (Num r) = Inr (trunc r)"
| "py_int Str = Inl ValueError"
| "py_int Null = Inl TypeError"

text \<open>
  One annotation record: the dict with keys \<^verbatim>\<open>image\<close>, \<^verbatim>\<open>width\<close>, \<^verbatim>\<open>height\<close>,
  \<^verbatim>\<open>keypoints\<close>. A missing \<^verbatim>\<open>width\<close> or \<^verbatim>\<open>height\<close> key is \<open>None\<close>; a missing
  \<^verbatim>\<open>image\<close> is the empty string and a missing \<^verbatim>\<open>keypoints\<close> the empty list, the
  defaults every \<^verbatim>\<open>ann.get\<close> of the code supplies.
\<close>

record annotation =
  ann_image :: string
  width :: "real option"
  height :: "real option"
  keypoints :: "keypoint list"

datatype format_mode = Standard | Coco

datatype edit_mode = Move | Add | Delete

text \<open>
  What an operation reports: the message box it opens, if any (for undo and redo, the
  text they put in the status line).
\<close>

datatype dialog = ShowWarning string | ShowInfo string | ShowError string | ShowCopied nat
  | NoDialog

text \<open>
  The application object. Annotation dicts are shared between the document, the lookup
  dictionary and \<^verbatim>\<open>current_annotation\<close>, so they live in a store (\<open>heap\<close>) and are
  referred to by their index. \<open>annotations_data\<close> is \<open>None\<close> when no document is loaded
  and otherwise the references of \<^verbatim>\<open>annotations_data['annotations']\<close>;
  \<open>annotation_dict\<close> keeps the insertion order of the Python dict.
  \<open>drag_state_saved\<close> is \<^verbatim>\<open>hasattr(self, '_drag_state_saved')\<close>, \<open>visibility_var\<close>
  the visibility chosen in the COCO panel of keypoint_labelerv2.py, \<open>current_image\<close>
  the width and height of the displayed image, if one is loaded.
\<close>

record app =
  heap :: "annotation list"
  annotations_data :: "nat list option"
  annotation_dict :: "(string \<times> nat) list"
  current_annotation :: "nat option"
  current_image_index :: nat
  image_list :: "string list"
  undo_stack :: "keypoint list list"
  redo_stack :: "keypoint list list"
  selected_keypoint :: "nat option"
  drag_state_saved :: bool
  edit_mode :: edit_mode
  format_mode :: format_mode
  visibility_var :: real
  default_visibility :: real
  scale_factor :: real
  unsaved_changes :: bool
  current_image :: "(real \<times> real) option"

definition max_history :: nat where
  "max_history = 50"

definition set_keypoints :: "nat \<Rightarrow> keypoint list \<Rightarrow> app \<Rightarrow> app" where
  "set_keypoints r kps s = s\<lparr>heap := (heap s)[r := (heap s ! r)\<lparr>keypoints := kps\<rparr>]\<rparr>"

section \<open>Edit history\<close>

text \<open>
  \<^verbatim>\<open>save_state\<close>, \<^verbatim>\<open>undo_action\<close>, \<^verbatim>\<open>redo_action\<close> (keypoint_labeler.py 778-832,
  keypoint_labelerv2.py 933-991). The Python lists grow at the end: \<^verbatim>\<open>append\<close> is
  \<open>xs @ [x]\<close>, \<^verbatim>\<open>pop()\<close> takes \<open>last\<close>, \<^verbatim>\<open>pop(0)\<close> drops the head.
\<close>

definition save_state :: "app \<Rightarrow> app" where
  "save_state s =
     (case current_annotation s of
        None \<Rightarrow> s
      | Some r \<Rightarrow>
          let current_keypoints = keypoints (heap s ! r);
              stack = undo_stack s @ [current_keypoints];
              stack = (if length stack > max_history then tl stack else stack)
          in s\<lparr>undo_stack := stack, redo_stack := []\<rparr>)"

definition undo_action :: "app \<Rightarrow> dialog \<times> app" where
  "undo_action s =
     (case current_annotation s of
        None \<Rightarrow> (ShowInfo ''Nothing to undo'', s)
      | Some r \<Rightarrow>
          if undo_stack s = [] then (ShowInfo ''Nothing to undo'', s)
          else
            let current_keypoints = keypoints (heap s ! r);
                previous_keypoints = last (undo_stack s);
                s = s\<lparr>redo_stack := redo_stack s @ [current_keypoints],
                      undo_stack := butlast (undo_stack s)\<rparr>
            in (NoDialog, set_keypoints r previous_keypoints s))"

definition redo_action :: "app \<Rightarrow> dialog \<times> app" where
  "redo_action s =
     (case current_annotation s of
        None \<Rightarrow> (ShowInfo ''Nothing to redo'', s)
      | Some r \<Rightarrow>
          if redo_stack s = [] then (ShowInfo ''Nothing to redo'', s)
          else
            let current_keypoints = keypoints (heap s ! r);
                next_keypoints = last (redo_stack s);
                s = s\<lparr>undo_stack := undo_stack s @ [current_keypoints],
                      redo_stack := butlast (redo_stack s)\<rparr>
            in (NoDialog, set_keypoints r next_keypoints s))"

section \<open>Edit operations\<close>

text \<open>
  The nearest-keypoint scan of \<^verbatim>\<open>on_canvas_click\<close> in move and delete mode
  (keypoint_labeler.py 878-888 and 906-916, keypoint_labelerv2.py 1088-1098 and 1125-1135):
  \<^verbatim>\<open>for idx, kp in enumerate(keypoints): if len(kp) >= 2: ...\<close>.
  \<open>min_dist\<close> starts as \<^verbatim>\<open>float('inf')\<close>, here \<open>None\<close>. \<^verbatim>\<open>len(None)\<close> raises
  TypeError, and so does the subtraction of a string or of \<^verbatim>\<open>None\<close> from a float.
\<close>

fun nearest_scan ::
  "real \<Rightarrow> real \<Rightarrow> nat \<Rightarrow> keypoint list \<Rightarrow> real option \<Rightarrow> nat option \<Rightarrow> py_error + nat option"
where
  "nearest_scan img_x img_y idx [] min_dist nearest_idx = Inr nearest_idx"
| "nearest_scan img_x img_y idx (KNone # kps) min_dist nearest_idx = Inl TypeError"
| "nearest_scan img_x img_y idx (KList cs # kps) min_dist nearest_idx =
     (if length cs \<ge> 2 then
        (case (cs ! 0, cs ! 1) of
           (Num kp_x, Num kp_y) \<Rightarrow>
             let dist = sqrt ((img_x - kp_x)\<^sup>2 + (img_y - kp_y)\<^sup>2) in
             if (case min_dist of None \<Rightarrow> True | Some m \<Rightarrow> dist < m) \<and> dist < 30
             then nearest_scan img_x img_y (Suc idx) kps (Some dist) (Some idx)
             else nearest_scan img_x img_y (Suc idx) kps min_dist nearest_idx
         | _ \<Rightarrow> Inl TypeError)
      else nearest_scan img_x img_y (Suc idx) kps min_dist nearest_idx)"

text \<open>\<^verbatim>\<open>list.pop(i)\<close> for an index in range.\<close>

definition pop_at :: "nat \<Rightarrow> 'a list \<Rightarrow> 'a list" where
  "pop_at i xs = take i xs @ drop (Suc i) xs"

text \<open>
  \<^verbatim>\<open>on_canvas_click\<close> (keypoint_labelerv2.py 1066-1147), given the click already
  translated to image coordinates. keypoint_labeler.py 856-926 is the same function
  without the COCO branch of add mode, that is, with \<open>format_mode = Standard\<close>.
  An exception leaves the callback, so the state is the one before the click.
\<close>

definition on_canvas_click :: "real \<Rightarrow> real \<Rightarrow> app \<Rightarrow> py_error + app" where
  "on_canvas_click img_x img_y s =
     (case current_annotation s of
        None \<Rightarrow> Inr s
      | Some r \<Rightarrow>
          if scale_factor s \<le> 0 then Inr s
          else
            (case edit_mode s of
               Move \<Rightarrow>
                 (case nearest_scan img_x img_y 0 (keypoints (heap s ! r)) None None of
                    Inl e \<Rightarrow> Inl e
                  | Inr nearest_idx \<Rightarrow> Inr (s\<lparr>selected_keypoint := nearest_idx\<rparr>))
             | Add \<Rightarrow>
                 let s = save_state s;
                     kp = (if format_mode s = Coco
                           then KList [Num img_x, Num img_y, Num (visibility_var s)]
                           else KList [Num img_x, Num img_y]);
                     s = set_keypoints r (keypoints (heap s ! r) @ [kp]) s
                 in Inr (s\<lparr>unsaved_changes := True\<rparr>)
             | Delete \<Rightarrow>
                 (case nearest_scan img_x img_y 0 (keypoints (heap s ! r)) None None of
                    Inl e \<Rightarrow> Inl e
                  | Inr None \<Rightarrow> Inr s
                  | Inr (Some nearest_idx) \<Rightarrow>
                      let s = save_state s;
                          s = set_keypoints r (pop_at nearest_idx (keypoints (heap s ! r))) s
                      in Inr (s\<lparr>selected_keypoint := None, unsaved_changes := True\<rparr>))))"

text \<open>
  \<^verbatim>\<open>on_canvas_drag\<close> (keypoint_labeler.py 928-949, keypoint_labelerv2.py 1149-1170):
  the first drag event of a gesture saves the state, every event overwrites the selected
  entry with the bare pair \<^verbatim>\<open>[img_x, img_y]\<close>. \<^verbatim>\<open>on_canvas_release\<close> ends the gesture.
\<close>

definition on_canvas_drag :: "real \<Rightarrow> real \<Rightarrow> app \<Rightarrow> py_error + app" where
  "on_canvas_drag img_x img_y s =
     (case selected_keypoint s of
        None \<Rightarrow> Inr s
      | Some sel \<Rightarrow>
          if edit_mode s \<noteq> Move then Inr s
          else if scale_factor s \<le> 0 then Inr s
          else
            let s = (if \<not> drag_state_saved s then (save_state s)\<lparr>drag_state_saved := True\<rparr>
                     else s)
            in (case current_annotation s of
                  None \<Rightarrow> Inl AttributeError
                | Some r \<Rightarrow>
                    let kps = keypoints (heap s ! r) in
                    if sel < length kps
                    then Inr ((set_keypoints r (kps[sel := KList [Num img_x, Num img_y]]) s)
                               \<lparr>unsaved_changes := True\<rparr>)
                    else Inr s))"

definition on_canvas_release :: "app \<Rightarrow> app" where
  "on_canvas_release s = s\<lparr>drag_state_saved := False, selected_keypoint := None\<rparr>"

text \<open>
  \<^verbatim>\<open>on_canvas_drag\<close> of dual_keypoint_labeler.py (1384-1413), for one side: the same
  gesture, but in COCO mode an entry that has a visibility keeps it.
\<close>

definition on_canvas_drag_dual :: "real \<Rightarrow> real \<Rightarrow> app \<Rightarrow> py_error + app" where
  "on_canvas_drag_dual img_x img_y s =
     (case selected_keypoint s of
        None \<Rightarrow> Inr s
      | Some sel \<Rightarrow>
          if edit_mode s \<noteq> Move then Inr s
          else if scale_factor s \<le> 0 then Inr s
          else
            let s = (if \<not> drag_state_saved s then (save_state s)\<lparr>drag_state_saved := True\<rparr>
                     else s)
            in (case current_annotation s of
                  None \<Rightarrow> Inl AttributeError
                | Some r \<Rightarrow>
                    let kps = keypoints (heap s ! r) in
                    if sel < length kps then
                      (case kps ! sel of
                         KNone \<Rightarrow>
                           Inr ((set_keypoints r (kps[sel := KList [Num img_x, Num img_y]]) s)
                                 \<lparr>unsaved_changes := True\<rparr>)
                       | KList old_kp \<Rightarrow>
                           if format_mode s = Coco \<and> length old_kp \<ge> 3 then
                             (case py_int (old_kp ! 2) of
                                Inl e \<Rightarrow> Inl e
                              | Inr v \<Rightarrow>
                                  Inr ((set_keypoints r
                                         (kps[sel := KList [Num img_x, Num img_y, Num (of_int v)]]) s)
                                        \<lparr>unsaved_changes := True\<rparr>))
                           else
                             Inr ((set_keypoints r (kps[sel := KList [Num img_x, Num img_y]]) s)
                                   \<lparr>unsaved_changes := True\<rparr>))
                    else Inr s))"

text \<open>\<^verbatim>\<open>clear_keypoints\<close> (keypoint_labeler.py 1103-1111).\<close>

definition clear_keypoints :: "app \<Rightarrow> app" where
  "clear_keypoints s =
     (case current_annotation s of
        None \<Rightarrow> s
      | Some r \<Rightarrow>
          let s = save_state s;
              s = set_keypoints r [] s
          in s\<lparr>unsaved_changes := True\<rparr>)"

section \<open>Copy from the previous frame\<close>

text \<open>
  Dictionary lookups of the form \<^verbatim>\<open>if key and key in self.annotation_dict\<close>.
\<close>

definition lookup_truthy :: "(string \<times> nat) list \<Rightarrow> string option \<Rightarrow> nat option" where
  "lookup_truthy d key = (if falsy_path key then None else map_of d (the key))"

text \<open>
  \<^verbatim>\<open>for ann_path, ann in self.annotation_dict.items(): if self.match_annotation_path(p, ann_path): ... break\<close>.
\<close>

definition first_match :: "string option \<Rightarrow> (string \<times> nat) list \<Rightarrow> nat option" where
  "first_match p d =
     map_option snd (find (\<lambda>(ann_path, ann). match_annotation_path p (Some ann_path)) d)"

text \<open>
  \<^verbatim>\<open>os.path.basename(prev_rel_path) if prev_rel_path else os.path.basename(prev_image_path)\<close>.
\<close>

definition filename_of :: "string option \<Rightarrow> string \<Rightarrow> string" where
  "filename_of prev_rel_path prev_image_path =
     (if falsy_path prev_rel_path then basename prev_image_path
      else basename (the prev_rel_path))"

text \<open>
  The lookup of the previous image's record in keypoint_labeler.py (1132-1149):
  exact path, then file name, then the matching cascade.
\<close>

definition find_prev_annotation_v1 ::
  "(string \<times> nat) list \<Rightarrow> string option \<Rightarrow> string \<Rightarrow> nat option" where
  "find_prev_annotation_v1 d prev_rel_path prev_image_path =
     (case lookup_truthy d prev_rel_path of
        Some a \<Rightarrow> Some a
      | None \<Rightarrow>
          (case map_of d (filename_of prev_rel_path prev_image_path) of
             Some a \<Rightarrow> Some a
           | None \<Rightarrow>
               if falsy_path prev_rel_path then None else first_match prev_rel_path d))"

text \<open>
  \<^verbatim>\<open>copy_from_previous_frame\<close> of keypoint_labeler.py (1113-1172). The function
  \<open>rel\<close> stands for \<^verbatim>\<open>get_relative_path(os.path.join(image_folder, p), image_folder)\<close>,
  which depends on the file system. This version never calls \<^verbatim>\<open>save_state\<close> and copies
  the list as it is (\<^verbatim>\<open>copy.deepcopy\<close>).
\<close>

definition copy_from_previous_frame_v1 ::
  "(string \<Rightarrow> string option) \<Rightarrow> app \<Rightarrow> py_error + dialog \<times> app" where
  "copy_from_previous_frame_v1 rel s =
     (case current_annotation s of
        None \<Rightarrow> Inr (ShowWarning ''No current annotation to copy to'', s)
      | Some r \<Rightarrow>
          if current_image_index s = 0
          then Inr (ShowWarning ''This is the first image. No previous frame to copy from.'', s)
          else if annotations_data s = None
          then Inr (ShowWarning ''No annotation data loaded'', s)
          else if current_image_index s - 1 \<ge> length (image_list s) then Inl IndexError
          else
            let prev_image_path = image_list s ! (current_image_index s - 1);
                prev_rel_path = rel prev_image_path
            in (case find_prev_annotation_v1 (annotation_dict s) prev_rel_path prev_image_path of
                  None \<Rightarrow> Inr (ShowWarning ''No annotation found for previous image'', s)
                | Some prev_annotation \<Rightarrow>
                    let prev_keypoints = keypoints (heap s ! prev_annotation) in
                    if prev_keypoints = []
                    then Inr (ShowInfo ''Previous image has no keypoints to copy'', s)
                    else Inr (NoDialog,
                              (set_keypoints r prev_keypoints s)\<lparr>unsaved_changes := True\<rparr>)))"

text \<open>
  The lookup in keypoint_labelerv2.py (1569-1599), five strategies; \<open>amp\<close> stands for
  \<^verbatim>\<open>get_annotation_match_path\<close> of the previous image.
\<close>

definition find_prev_annotation_v2 ::
  "(string \<times> nat) list \<Rightarrow> string option \<Rightarrow> string option \<Rightarrow> string \<Rightarrow> nat option" where
  "find_prev_annotation_v2 d prev_annotation_match_path prev_rel_path prev_image_path =
     (case lookup_truthy d prev_annotation_match_path of
        Some a \<Rightarrow> Some a
      | None \<Rightarrow>
     (case lookup_truthy d prev_rel_path of
        Some a \<Rightarrow> Some a
      | None \<Rightarrow>
     (case map_of d (filename_of prev_rel_path prev_image_path) of
        Some a \<Rightarrow> Some a
      | None \<Rightarrow>
     (case (if falsy_path prev_annotation_match_path then None
            else first_match prev_annotation_match_path d) of
        Some a \<Rightarrow> Some a
      | None \<Rightarrow>
          if falsy_path prev_rel_path then None else first_match prev_rel_path d))))"

text \<open>
  The clean-up of one copied entry (keypoint_labelerv2.py 1622-1645). Both
  \<^verbatim>\<open>float\<close> calls and the \<^verbatim>\<open>int\<close> call are inside the \<^verbatim>\<open>try\<close>, whose handler
  appends \<^verbatim>\<open>None\<close>. There is no test of the sign of \<open>x\<close> or \<open>y\<close>.
\<close>

definition clean_keypoint :: "format_mode \<Rightarrow> real \<Rightarrow> keypoint \<Rightarrow> keypoint" where
  "clean_keypoint mode default_vis kp =
     (case kp of
        KNone \<Rightarrow> KNone
      | KList cs \<Rightarrow>
          if length cs \<ge> 2 then
            (case (py_float (cs ! 0), py_float (cs ! 1)) of
               (Inr x, Inr y) \<Rightarrow>
                 if length cs \<ge> 3 then
                   (case py_int (cs ! 2) of
                      Inr v \<Rightarrow> KList [Num x, Num y, Num (of_int v)]
                    | Inl e \<Rightarrow> KNone)
                 else if mode = Coco then KList [Num x, Num y, Num default_vis]
                 else KList [Num x, Num y]
             | _ \<Rightarrow> KNone)
          else KNone)"

text \<open>
  \<^verbatim>\<open>copy_from_previous_frame\<close> of keypoint_labelerv2.py (1547-1663): the state is
  saved right after the three guards, before the previous record is looked up.
\<close>

definition copy_from_previous_frame_v2 ::
  "(string \<Rightarrow> string option) \<Rightarrow> (string \<Rightarrow> string option) \<Rightarrow> app \<Rightarrow> py_error + dialog \<times> app"
where
  "copy_from_previous_frame_v2 rel amp s =
     (case current_annotation s of
        None \<Rightarrow> Inr (ShowWarning ''No current annotation to copy to'', s)
      | Some r \<Rightarrow>
          if current_image_index s = 0
          then Inr (ShowWarning ''This is the first image. No previous frame to copy from.'', s)
          else if annotations_data s = None
          then Inr (ShowWarning ''No annotation data loaded'', s)
          else
            let s = save_state s in
            if current_image_index s - 1 \<ge> length (image_list s) then Inl IndexError
            else
              let prev_image_path = image_list s ! (current_image_index s - 1);
                  prev_rel_path = rel prev_image_path;
                  prev_annotation_match_path = amp prev_image_path
              in (case find_prev_annotation_v2 (annotation_dict s) prev_annotation_match_path
                         prev_rel_path prev_image_path of
                    None \<Rightarrow> Inr (ShowWarning ''No annotation found for previous image'', s)
                  | Some prev_annotation \<Rightarrow>
                      let prev_keypoints = keypoints (heap s ! prev_annotation) in
                      if prev_keypoints = []
                      then Inr (ShowInfo ''Previous image has no keypoints to copy'', s)
                      else
                        let cleaned_keypoints =
                              map (clean_keypoint (format_mode s) (default_visibility s))
                                prev_keypoints
                        in Inr (NoDialog,
                                (set_keypoints r cleaned_keypoints s)
                                  \<lparr>unsaved_changes := True\<rparr>)))"

section \<open>Export\<close>

text \<open>
  A coordinate used as a number in arithmetic or in a comparison: a string or \<^verbatim>\<open>None\<close>
  operand raises TypeError.
\<close>

fun py_num :: "coord \<Rightarrow> py_error + real" where
  "py_num (Num r) = Inr r"
| "py_num Str = Inl TypeError"
| "py_num Null = Inl TypeError"

text \<open>
  One iteration of the flattening loop of \<^verbatim>\<open>export_to_coco\<close> (keypoint_labeler.py
  1839-1843, keypoint_labelerv2.py 2410-2414, dual_keypoint_labeler.py 2346-2350):
  what the iteration appends to \<^verbatim>\<open>coco_keypoints\<close>. \<^verbatim>\<open>len(kp)\<close> comes first, with no
  test for \<^verbatim>\<open>None\<close>.
\<close>

definition coco_entry :: "keypoint \<Rightarrow> py_error + real list" where
  "coco_entry kp =
     (case kp of
        KNone \<Rightarrow> Inl TypeError
      | KList cs \<Rightarrow>
          if length cs \<ge> 2 then
            (case py_float (cs ! 0) of
               Inl e \<Rightarrow> Inl e
             | Inr x \<Rightarrow>
                 (case py_float (cs ! 1) of
                    Inl e \<Rightarrow> Inl e
                  | Inr y \<Rightarrow>
                      if length cs \<ge> 3 then
                        (case py_int (cs ! 2) of
                           Inl e \<Rightarrow> Inl e
                         | Inr v \<Rightarrow> Inr [x, y, of_int v])
                      else Inr [x, y, 2]))
          else Inr [])"

fun coco_flatten :: "keypoint list \<Rightarrow> real list \<Rightarrow> py_error + real list" where
  "coco_flatten [] coco_keypoints = Inr coco_keypoints"
| "coco_flatten (kp # kps) coco_keypoints =
     (case coco_entry kp of
        Inl e \<Rightarrow> Inl e
      | Inr vs \<Rightarrow> coco_flatten kps (coco_keypoints @ vs))"

text \<open>
  \<^verbatim>\<open>[kp[i] for kp in keypoints if len(kp) >= 2]\<close>, the values then compared by
  \<^verbatim>\<open>min\<close> and \<^verbatim>\<open>max\<close>.
\<close>

fun coords_at :: "nat \<Rightarrow> keypoint list \<Rightarrow> py_error + real list" where
  "coords_at i [] = Inr []"
| "coords_at i (KNone # kps) = Inl TypeError"
| "coords_at i (KList cs # kps) =
     (if length cs \<ge> 2 then
        (case py_num (cs ! i) of
           Inl e \<Rightarrow> Inl e
         | Inr v \<Rightarrow> (case coords_at i kps of Inl e \<Rightarrow> Inl e | Inr vs \<Rightarrow> Inr (v # vs)))
      else coords_at i kps)"

text \<open>\<^verbatim>\<open>min(xs)\<close> and \<^verbatim>\<open>max(xs)\<close> of a non-empty list.\<close>

definition py_min :: "real list \<Rightarrow> real" where
  "py_min xs = fold min (tl xs) (hd xs)"

definition py_max :: "real list \<Rightarrow> real" where
  "py_max xs = fold max (tl xs) (hd xs)"

record coco_image =
  ci_id :: nat
  ci_file_name :: string
  ci_width :: real
  ci_height :: real

record coco_annotation =
  ca_id :: nat
  ca_image_id :: nat
  ca_keypoints :: "real list"
  ca_num_keypoints :: nat
  ca_bbox :: "real list"
  ca_area :: real

text \<open>
  The loop variables of \<^verbatim>\<open>export_to_coco\<close>: the id map, the two counters and the
  \<^verbatim>\<open>images\<close> and \<^verbatim>\<open>annotations\<close> arrays of \<^verbatim>\<open>coco_data\<close>.
\<close>

record coco_data =
  image_id_map :: "(string \<times> nat) list"
  image_id :: nat
  annotation_id :: nat
  coco_images :: "coco_image list"
  coco_annotations :: "coco_annotation list"

definition get_or :: "'a \<Rightarrow> 'a option \<Rightarrow> 'a" where
  "get_or d v = (case v of None \<Rightarrow> d | Some x \<Rightarrow> x)"

text \<open>
  The image entry of one record (keypoint_labeler.py 1824-1834): a path seen for the
  first time gets the next image id.
\<close>

definition coco_image_entry :: "annotation \<Rightarrow> coco_data \<Rightarrow> coco_data" where
  "coco_image_entry ann c =
     (if map_of (image_id_map c) (ann_image ann) = None then
        c\<lparr>image_id_map := image_id_map c @ [(ann_image ann, image_id c)],
          coco_images := coco_images c @
            [\<lparr>ci_id = image_id c, ci_file_name = ann_image ann,
              ci_width = get_or 0 (width ann), ci_height = get_or 0 (height ann)\<rparr>],
          image_id := image_id c + 1\<rparr>
      else c)"

text \<open>
  The annotation entry of one record (keypoint_labeler.py 1845-1873), padding 10,
  \<^verbatim>\<open>num_keypoints\<close> being \<^verbatim>\<open>len(keypoints)\<close>.
\<close>

definition coco_annotation_entry ::
  "annotation \<Rightarrow> nat \<Rightarrow> real list \<Rightarrow> coco_data \<Rightarrow> py_error + coco_data" where
  "coco_annotation_entry ann img_id coco_keypoints c =
     (if coco_keypoints = [] then Inr c
      else
        (case coords_at 0 (keypoints ann) of
           Inl e \<Rightarrow> Inl e
         | Inr xs \<Rightarrow>
        (case coords_at 1 (keypoints ann) of
           Inl e \<Rightarrow> Inl e
         | Inr ys \<Rightarrow>
             if xs \<noteq> [] \<and> ys \<noteq> [] then
               let x_min = py_min xs; x_max = py_max xs;
                   y_min = py_min ys; y_max = py_max ys;
                   bbox_width = x_max - x_min;
                   bbox_height = y_max - y_min;
                   padding = 10;
                   x_min = max 0 (x_min - padding);
                   y_min = max 0 (y_min - padding);
                   bbox_width = min (get_or 0 (width ann) - x_min) (bbox_width + 2 * padding);
                   bbox_height = min (get_or 0 (height ann) - y_min) (bbox_height + 2 * padding)
               in Inr (c\<lparr>coco_annotations := coco_annotations c @
                           [\<lparr>ca_id = annotation_id c, ca_image_id = img_id,
                             ca_keypoints = coco_keypoints,
                             ca_num_keypoints = length (keypoints ann),
                             ca_bbox = [x_min, y_min, bbox_width, bbox_height],
                             ca_area = bbox_width * bbox_height\<rparr>],
                         annotation_id := annotation_id c + 1\<rparr>)
             else Inr c)))"

fun coco_loop :: "annotation list \<Rightarrow> coco_data \<Rightarrow> py_error + coco_data" where
  "coco_loop [] c = Inr c"
| "coco_loop (ann # anns) c =
     (if ann_image ann = [] then coco_loop anns c
      else
        let c = coco_image_entry ann c;
            img_id = get_or 0 (map_of (image_id_map c) (ann_image ann))
        in (case coco_flatten (keypoints ann) [] of
              Inl e \<Rightarrow> Inl e
            | Inr coco_keypoints \<Rightarrow>
                (case coco_annotation_entry ann img_id coco_keypoints c of
                   Inl e \<Rightarrow> Inl e
                 | Inr c \<Rightarrow> coco_loop anns c)))"

text \<open>
  The body of the \<^verbatim>\<open>try\<close> of \<^verbatim>\<open>export_to_coco\<close>, on the document's records. The file
  is written after the loop, so \<open>Inl e\<close> is the exit through \<^verbatim>\<open>except Exception\<close>: an
  error box and no file. \<open>Inr c\<close> is the data handed to \<^verbatim>\<open>json.dump\<close>.
\<close>

definition export_to_coco :: "annotation list \<Rightarrow> py_error + coco_data" where
  "export_to_coco anns =
     coco_loop anns
       \<lparr>image_id_map = [], image_id = 1, annotation_id = 1,
        coco_images = [], coco_annotations = []\<rparr>"







section \<open>Native save and import\<close>







section \<open>Batch copy\<close>

text \<open>\<^verbatim>\<open>d[key] = value\<close> on an insertion-ordered dict.\<close>

definition dict_set :: "string \<Rightarrow> nat \<Rightarrow> (string \<times> nat) list \<Rightarrow> (string \<times> nat) list" where
  "dict_set key v d =
     (if map_of d key = None then d @ [(key, v)]
      else map (\<lambda>(k, w). if k = key then (k, v) else (k, w)) d)"

text \<open>
  The record found for a frame in \<^verbatim>\<open>copy_batch\<close> (keypoint_labeler.py 1722-1726):
  by its annotation match path, else by its relative path.
\<close>

definition frame_record ::
  "(string \<Rightarrow> string option) \<Rightarrow> (string \<Rightarrow> string option) \<Rightarrow> string \<Rightarrow> (string \<times> nat) list
     \<Rightarrow> nat option" where
  "frame_record rel amp img_path d =
     (case lookup_truthy d (amp img_path) of
        Some a \<Rightarrow> Some a
      | None \<Rightarrow> lookup_truthy d (rel img_path))"

text \<open>
  One iteration of the loop of \<^verbatim>\<open>copy_batch\<close> after the \<^verbatim>\<open>break\<close> test
  (keypoint_labeler.py 1716-1745): find or create the frame's record, then overwrite
  its keypoints. A new record is appended to the store and to the document and entered
  in the dictionary under the paths that are not empty.
\<close>

definition copy_to_frame ::
  "(string \<Rightarrow> string option) \<Rightarrow> (string \<Rightarrow> string option) \<Rightarrow> keypoint list \<Rightarrow> string \<Rightarrow> app \<Rightarrow> app"
where
  "copy_to_frame rel amp current_keypoints img_path s =
     (let image_rel_path = rel img_path;
          annotation_match_path = amp img_path
      in (case frame_record rel amp img_path (annotation_dict s) of
            Some ann \<Rightarrow> set_keypoints ann current_keypoints s
          | None \<Rightarrow>
              let new = \<lparr>ann_image = (if \<not> falsy_path annotation_match_path
                                       then the annotation_match_path
                                       else get_or [] image_rel_path),
                         width = Some (case current_image s of Some (w, h) \<Rightarrow> w | None \<Rightarrow> 1280),
                         height = Some (case current_image s of Some (w, h) \<Rightarrow> h | None \<Rightarrow> 720),
                         keypoints = []\<rparr>;
                  ann = length (heap s);
                  s = s\<lparr>heap := heap s @ [new],
                        annotations_data := Some (get_or [] (annotations_data s) @ [ann])\<rparr>;
                  s = (if \<not> falsy_path annotation_match_path
                       then s\<lparr>annotation_dict :=
                                dict_set (the annotation_match_path) ann (annotation_dict s)\<rparr>
                       else s);
                  s = (if \<not> falsy_path image_rel_path
                       then s\<lparr>annotation_dict :=
                                dict_set (the image_rel_path) ann (annotation_dict s)\<rparr>
                       else s)
              in set_keypoints ann current_keypoints s))"






section \<open>A concrete session\<close>

text \<open>
  Two images \<^verbatim>\<open>f0.jpg\<close> and \<^verbatim>\<open>f1.jpg\<close> with one record each; the second image is
  the current one, in COCO mode and move mode. Its record holds an occluded keypoint and
  a visible one.
\<close>

definition demo_app :: app where
  "demo_app =
     \<lparr>heap =
        [\<lparr>ann_image = ''f0.jpg'', width = Some 100, height = Some 100,
          keypoints = [KList [Num 7, Num 8]]\<rparr>,
         \<lparr>ann_image = ''f1.jpg'', width = Some 100, height = Some 100,
          keypoints = [KList [Num 1, Num 1, Num 1], KList [Num 4, Num 6, Num 2]]\<rparr>],
      annotations_data = Some [0, 1],
      annotation_dict = [(''f0.jpg'', 0), (''f1.jpg'', 1)],
      current_annotation = Some 1,
      current_image_index = 1,
      image_list = [''f0.jpg'', ''f1.jpg''],
      undo_stack = [],
      redo_stack = [],
      selected_keypoint = None,
      drag_state_saved = False,
      edit_mode = Move,
      format_mode = Coco,
      visibility_var = 2,
      default_visibility = 2,
      scale_factor = 1,
      unsaved_changes = False,
      current_image = Some (100, 100)\<rparr>"



section \<open>Properties of path matching\<close>

lemma split_slash_not_Nil: "split_slash p \<noteq> []"
  by (induction p) (auto split: list.splits)

lemma split_slash_no_slash: "CHR ''/'' \<notin> set p \<Longrightarrow> split_slash p = [p]"
  by (induction p) auto

lemma split_slash_slash: "CHR ''/'' \<in> set p \<Longrightarrow> 2 \<le> length (split_slash p)"
proof (induction p)
  case Nil
  then show ?case by simp
next
  case (Cons c cs)
  show ?case
  proof (cases "c = CHR ''/''")
    case True
    have "1 \<le> length (split_slash cs)"
      using split_slash_not_Nil [of cs] by (cases "split_slash cs") auto
    with True show ?thesis by simp
  next
    case False
    with Cons.prems have "CHR ''/'' \<in> set cs" by simp
    from Cons.IH [OF this] False show ?thesis
      by (cases "split_slash cs") auto
  qed
qed

lemma basename_Cons:
  "basename (c # cs) =
     (if CHR ''/'' \<in> set cs then basename cs
      else if c = CHR ''/'' then cs else c # cs)"
proof (cases "CHR ''/'' \<in> set cs")
  case True
  then have "CHR ''/'' \<in> set (rev cs)" by simp
  then have "takeWhile (\<lambda>c. c \<noteq> CHR ''/'') (rev cs @ [c])
      = takeWhile (\<lambda>c. c \<noteq> CHR ''/'') (rev cs)"
    by (rule takeWhile_append1) simp
  with True show ?thesis by (simp add: basename_def)
next
  case False
  then have "takeWhile (\<lambda>c. c \<noteq> CHR ''/'') (rev cs @ [c])
      = rev cs @ takeWhile (\<lambda>c. c \<noteq> CHR ''/'') [c]"
    by (intro takeWhile_append2) auto
  with False show ?thesis by (simp add: basename_def)
qed

lemma last_split_slash: "last (split_slash p) = basename p"
proof (induction p)
  case Nil
  show ?case by (simp add: basename_def)
next
  case (Cons c cs)
  show ?case
  proof (cases "CHR ''/'' \<in> set cs")
    case True
    from split_slash_slash [OF True] obtain q r qs where q: "split_slash cs = q # r # qs"
      by (cases "split_slash cs"; cases "tl (split_slash cs)") auto
    with Cons.IH True show ?thesis
      by (simp add: basename_Cons)
  next
    case False
    then show ?thesis
      by (simp add: basename_Cons split_slash_no_slash)
  qed
qed

lemma segment_suffix_rule_last:
  assumes "segment_suffix_rule (split_slash a) (split_slash b)"
  shows "basename a = basename b"
proof -
  let ?xs = "split_slash a" and ?ys = "split_slash b"
  from assms obtain i where i: "i < length ?xs"
    and eq: "drop i ?xs = last_slice (length (drop i ?xs)) ?ys"
    by (auto simp: segment_suffix_rule_def list_ex_iff)
  have ys: "?ys \<noteq> []" by (rule split_slash_not_Nil)
  from i have ne: "drop i ?xs \<noteq> []" by simp
  have "last (drop i ?xs) = last ?xs" using i by simp
  moreover have "last (last_slice (length (drop i ?xs)) ?ys) = last ?ys"
  proof -
    have "length ?ys - length (drop i ?xs) < length ?ys"
      using i ys by (cases "split_slash b") auto
    then show ?thesis
      unfolding last_slice_def by (rule last_drop)
  qed
  ultimately have "last ?xs = last ?ys" using eq by simp
  then show ?thesis by (simp add: last_split_slash)
qed

text \<open>
  C6. Path matching is symmetric: for every pair of (possibly missing) path strings
  \<open>a\<close> and \<open>b\<close>, \<open>match(a, b) = match(b, a)\<close>, whichever of the exact, basename, suffix
  or segment-suffix rules decides; and the two paths \<^verbatim>\<open>frames/x/f1.jpg\<close> and
  \<^verbatim>\<open>DL/frames/x/f1.jpg\<close> match in both orders.
\<close>

theorem match_annotation_path_symmetric:
  "(\<forall>a b. match_annotation_path a b = match_annotation_path b a)
   \<and> match_annotation_path (Some ''frames/x/f1.jpg'') (Some ''DL/frames/x/f1.jpg'')
   \<and> match_annotation_path (Some ''DL/frames/x/f1.jpg'') (Some ''frames/x/f1.jpg'')"
proof (intro conjI allI)
  fix a b :: "string option"
  show "match_annotation_path a b = match_annotation_path b a"
  proof (cases "falsy_path a \<or> falsy_path b")
    case True
    then show ?thesis
      by (auto simp: match_annotation_path_def)
  next
    case False
    from False obtain a' b' where "a = Some a'" and "b = Some b'"
      by (cases a; cases b) (auto simp: falsy_path_def)
    then obtain x y where a: "normalize_path a = Some x" and b: "normalize_path b = Some y"
      by (simp add: normalize_path_def)
    show ?thesis
    proof (cases "basename x = basename y")
      case True
      then show ?thesis
        using a b False by (auto simp: match_annotation_path_def)
    next
      case diff: False
      then have "\<not> segment_suffix_rule (split_slash x) (split_slash y)"
        and "\<not> segment_suffix_rule (split_slash y) (split_slash x)"
        using segment_suffix_rule_last [of x y] segment_suffix_rule_last [of y x] by auto
      then show ?thesis
        using a b False by (auto simp: match_annotation_path_def)
    qed
  qed
next
  show "match_annotation_path (Some ''frames/x/f1.jpg'') (Some ''DL/frames/x/f1.jpg'')"
    by (simp add: match_annotation_path_def falsy_path_def normalize_path_def basename_def)
next
  show "match_annotation_path (Some ''DL/frames/x/f1.jpg'') (Some ''frames/x/f1.jpg'')"
    by (simp add: match_annotation_path_def falsy_path_def normalize_path_def basename_def)
qed

section \<open>Properties of the edit operations\<close>




lemma save_state_frame [simp]:
  "heap (save_state s) = heap s"
  "current_annotation (save_state s) = current_annotation s"
  "current_image_index (save_state s) = current_image_index s"
  "image_list (save_state s) = image_list s"
  "annotation_dict (save_state s) = annotation_dict s"
  "annotations_data (save_state s) = annotations_data s"
  "format_mode (save_state s) = format_mode s"
  "default_visibility (save_state s) = default_visibility s"
  by (simp_all add: save_state_def Let_def split: option.splits)

lemma keypoints_set_keypoints [simp]:
  "r < length (heap s) \<Longrightarrow> keypoints (heap (set_keypoints r kps s) ! r) = kps"
  by (simp add: set_keypoints_def)

lemma on_canvas_drag_entry:
  assumes "selected_keypoint s = Some sel" and "edit_mode s = Move" and "0 < scale_factor s"
    and "current_annotation s = Some r" and "r < length (heap s)"
    and "sel < length (keypoints (heap s ! r))"
    and "on_canvas_drag img_x img_y s = Inr s'"
  shows "keypoints (heap s' ! r) = (keypoints (heap s ! r))[sel := KList [Num img_x, Num img_y]]"
proof (cases "drag_state_saved s")
  case True
  with assms show ?thesis
    by (auto simp: on_canvas_drag_def Let_def)
next
  case False
  with assms show ?thesis
    by (auto simp: on_canvas_drag_def Let_def)
qed

text \<open>
  C4. The claim is that a move replaces only the coordinates at the index and keeps the
  entry's visibility. In keypoint_labeler.py and keypoint_labelerv2.py the drag writes the
  bare pair: moving the occluded keypoint \<^verbatim>\<open>[1, 1, 1]\<close> of the demo record to \<open>(5, 5)\<close>
  leaves \<^verbatim>\<open>[5, 5]\<close>, without its visibility; the other entry is untouched.
\<close>

theorem on_canvas_drag_drops_visibility:
  "keypoints (heap demo_app ! 1) = [KList [Num 1, Num 1, Num 1], KList [Num 4, Num 6, Num 2]]
   \<and> map_sum id (\<lambda>s. keypoints (heap s ! 1))
        (on_canvas_drag 5 5 (demo_app\<lparr>selected_keypoint := Some 0\<rparr>))
      = Inr [KList [Num 5, Num 5], KList [Num 4, Num 6, Num 2]]"
  by (simp add: demo_app_def on_canvas_drag_def save_state_def set_keypoints_def
      max_history_def Let_def)

text \<open>The dual-view variant keeps the visibility in COCO mode on the same input.\<close>

lemma on_canvas_drag_dual_keeps_visibility:
  "map_sum id (\<lambda>s. keypoints (heap s ! 1))
     (on_canvas_drag_dual 5 5 (demo_app\<lparr>selected_keypoint := Some 0\<rparr>))
   = Inr [KList [Num 5, Num 5, Num 1], KList [Num 4, Num 6, Num 2]]"
  by (simp add: demo_app_def on_canvas_drag_dual_def save_state_def set_keypoints_def
      max_history_def trunc_def Let_def)

section \<open>Undo and redo\<close>

text \<open>
  An edit that snapshots first is \<open>g (set_keypoints r new (save_state s))\<close>: the state is
  saved, the new list installed, and \<open>g\<close> changes other fields only. After at most
  \<open>max_history\<close> such edits of one record, as many undos restore the list the record had
  before the first edit, and as many redos after them the list it had after the last.
\<close>

lemma recorded_edit_fields:
  assumes "current_annotation s = Some r" and "r < length (heap s)"
  shows "current_annotation (set_keypoints r new (save_state s)) = Some r"
    and "length (heap (set_keypoints r new (save_state s))) = length (heap s)"
    and "keypoints (heap (set_keypoints r new (save_state s)) ! r) = new"
    and "undo_stack (set_keypoints r new (save_state s)) =
      (let stack = undo_stack s @ [keypoints (heap s ! r)]
       in if length stack > max_history then tl stack else stack)"
  using assms by (simp_all add: set_keypoints_def save_state_def Let_def)

lemma undo_action_fields:
  assumes "current_annotation s = Some r" and "r < length (heap s)"
    and "undo_stack s = pre @ [k]"
  shows "current_annotation (snd (undo_action s)) = Some r"
    and "length (heap (snd (undo_action s))) = length (heap s)"
    and "keypoints (heap (snd (undo_action s)) ! r) = k"
    and "undo_stack (snd (undo_action s)) = pre"
    and "redo_stack (snd (undo_action s)) = redo_stack s @ [keypoints (heap s ! r)]"
  using assms by (simp_all add: undo_action_def set_keypoints_def Let_def)

lemma redo_action_fields:
  assumes "current_annotation s = Some r" and "r < length (heap s)"
    and "redo_stack s = pre @ [k]"
  shows "current_annotation (snd (redo_action s)) = Some r"
    and "length (heap (snd (redo_action s))) = length (heap s)"
    and "keypoints (heap (snd (redo_action s)) ! r) = k"
    and "redo_stack (snd (redo_action s)) = pre"
    and "undo_stack (snd (redo_action s)) = undo_stack s @ [keypoints (heap s ! r)]"
  using assms by (simp_all add: redo_action_def set_keypoints_def Let_def)

lemma recorded_edits_history:
  assumes "current_annotation s = Some r" and "r < length (heap s)"
    and "length edits \<le> max_history"
    and "\<forall>(new, g)\<in>set edits. \<forall>t. heap (g t) = heap t
           \<and> current_annotation (g t) = current_annotation t
           \<and> undo_stack (g t) = undo_stack t"
  shows "current_annotation (foldl (\<lambda>s (new, g). g (set_keypoints r new (save_state s))) s edits)
        = Some r
    \<and> length (heap (foldl (\<lambda>s (new, g). g (set_keypoints r new (save_state s))) s edits))
        = length (heap s)
    \<and> keypoints (heap (foldl (\<lambda>s (new, g). g (set_keypoints r new (save_state s))) s edits) ! r)
        = last (keypoints (heap s ! r) # map fst edits)
    \<and> (\<exists>pre. undo_stack (foldl (\<lambda>s (new, g). g (set_keypoints r new (save_state s))) s edits)
          = pre @ butlast (keypoints (heap s ! r) # map fst edits))"
  using assms(3,4)
proof (induction edits rule: rev_induct)
  case Nil
  with assms(1,2) show ?case by simp
next
  case (snoc e edits)
  obtain new g where e: "e = (new, g)" by (cases e)
  let ?s = "foldl (\<lambda>s (new, g). g (set_keypoints r new (save_state s))) s edits"
  let ?k0 = "keypoints (heap s ! r)"
  let ?news = "map fst edits"
  from snoc.prems have len: "length ?news < max_history"
    and keep: "\<forall>(new, g)\<in>set edits. \<forall>t. heap (g t) = heap t
           \<and> current_annotation (g t) = current_annotation t
           \<and> undo_stack (g t) = undo_stack t"
    and g: "\<And>t. heap (g t) = heap t" "\<And>t. current_annotation (g t) = current_annotation t"
      "\<And>t. undo_stack (g t) = undo_stack t"
    by (auto simp: e)
  from len have "length edits \<le> max_history" by simp
  from snoc.IH [OF this keep] obtain pre where cur: "current_annotation ?s = Some r"
    and hp: "length (heap ?s) = length (heap s)"
    and kp: "keypoints (heap ?s ! r) = last (?k0 # ?news)"
    and us: "undo_stack ?s = pre @ butlast (?k0 # ?news)"
    by auto
  from hp assms(2) have r: "r < length (heap ?s)" by simp
  note f = recorded_edit_fields [OF cur r, of new]
  have full: "undo_stack ?s @ [keypoints (heap ?s ! r)] = pre @ (?k0 # ?news)"
    unfolding us kp by (simp add: snoc_eq_iff_butlast del: butlast.simps last.simps)
  have "\<exists>pre'. undo_stack (set_keypoints r new (save_state ?s)) = pre' @ (?k0 # ?news)"
  proof (cases "length (pre @ (?k0 # ?news)) > max_history")
    case True
    with len have "pre \<noteq> []" by auto
    then have "tl (pre @ (?k0 # ?news)) = tl pre @ (?k0 # ?news)" by simp
    with True show ?thesis
      unfolding f(4) full Let_def by auto
  next
    case False
    then show ?thesis
      unfolding f(4) full Let_def by auto
  qed
  with f(1,2,3) hp show ?case
    by (simp add: e g)
qed

lemma funpow_first: "(f ^^ Suc n) x = (f ^^ n) (f x)"
  by (simp add: funpow_swap1)

lemma undo_many:
  assumes "current_annotation s = Some r" and "r < length (heap s)"
    and "undo_stack s = pre @ states"
  shows "current_annotation (((\<lambda>s. snd (undo_action s)) ^^ length states) s) = Some r
    \<and> length (heap (((\<lambda>s. snd (undo_action s)) ^^ length states) s)) = length (heap s)
    \<and> keypoints (heap (((\<lambda>s. snd (undo_action s)) ^^ length states) s) ! r)
        = hd (states @ [keypoints (heap s ! r)])
    \<and> redo_stack (((\<lambda>s. snd (undo_action s)) ^^ length states) s)
        = redo_stack s @ rev (tl (states @ [keypoints (heap s ! r)]))"
  using assms
proof (induction states arbitrary: s rule: rev_induct)
  case Nil
  then show ?case by simp
next
  case (snoc k states)
  let ?F = "\<lambda>s. snd (undo_action s)"
  let ?s = "snd (undo_action s)"
  let ?c = "keypoints (heap s ! r)"
  from snoc.prems(3) have us: "undo_stack s = (pre @ states) @ [k]" by simp
  note f = undo_action_fields [OF snoc.prems(1,2) us]
  from f(2) snoc.prems(2) have r: "r < length (heap ?s)" by simp
  have run: "(?F ^^ length (states @ [k])) s = (?F ^^ length states) ?s"
    by (simp only: length_append_singleton funpow_first)
  have h: "hd ((states @ [k]) @ [?c]) = hd (states @ [k])"
    by (cases states) simp_all
  have t: "rev (tl ((states @ [k]) @ [?c])) = ?c # rev (tl (states @ [k]))"
    by (cases states) simp_all
  from snoc.IH [OF f(1) r f(4)] show ?case
    unfolding run h t f(2) f(3) f(5) by simp
qed

lemma redo_many:
  assumes "current_annotation s = Some r" and "r < length (heap s)"
    and "redo_stack s = pre @ rev states"
  shows "keypoints (heap (((\<lambda>s. snd (redo_action s)) ^^ length states) s) ! r)
        = last (keypoints (heap s ! r) # states)"
  using assms
proof (induction states arbitrary: s)
  case Nil
  then show ?case by simp
next
  case (Cons k states)
  let ?F = "\<lambda>s. snd (redo_action s)"
  let ?s = "snd (redo_action s)"
  from Cons.prems(3) have rs: "redo_stack s = (pre @ rev states) @ [k]" by simp
  note f = redo_action_fields [OF Cons.prems(1,2) rs]
  from f(2) Cons.prems(2) have r: "r < length (heap ?s)" by simp
  have run: "(?F ^^ length (k # states)) s = (?F ^^ length states) ?s"
    unfolding length_Cons by (rule funpow_first)
  have l: "last (keypoints (heap s ! r) # k # states) = last (k # states)"
    by simp
  from Cons.IH [OF f(1) r f(4)] show ?case
    unfolding run l f(3) .
qed

lemma undo_redo_inverse:
  assumes "current_annotation s = Some r" and "r < length (heap s)"
    and "length edits \<le> max_history"
    and "\<forall>(new, g)\<in>set edits. \<forall>t. heap (g t) = heap t
           \<and> current_annotation (g t) = current_annotation t
           \<and> undo_stack (g t) = undo_stack t"
  shows "keypoints (heap (((\<lambda>s. snd (undo_action s)) ^^ length edits)
            (foldl (\<lambda>s (new, g). g (set_keypoints r new (save_state s))) s edits)) ! r)
          = keypoints (heap s ! r)
    \<and> keypoints (heap (((\<lambda>s. snd (redo_action s)) ^^ length edits)
            (((\<lambda>s. snd (undo_action s)) ^^ length edits)
               (foldl (\<lambda>s (new, g). g (set_keypoints r new (save_state s))) s edits))) ! r)
          = keypoints (heap (foldl (\<lambda>s (new, g). g (set_keypoints r new (save_state s))) s edits) ! r)"
proof -
  let ?e = "foldl (\<lambda>s (new, g). g (set_keypoints r new (save_state s))) s edits"
  let ?k0 = "keypoints (heap s ! r)"
  let ?news = "map fst edits"
  let ?u = "((\<lambda>s. snd (undo_action s)) ^^ length edits) ?e"
  from recorded_edits_history [OF assms] obtain pre where cur: "current_annotation ?e = Some r"
    and hp: "length (heap ?e) = length (heap s)"
    and kp: "keypoints (heap ?e ! r) = last (?k0 # ?news)"
    and us: "undo_stack ?e = pre @ butlast (?k0 # ?news)"
    by auto
  from hp assms(2) have r: "r < length (heap ?e)" by simp
  have n: "length (butlast (?k0 # ?news)) = length edits" by simp
  have tl: "butlast (?k0 # ?news) @ [last (?k0 # ?news)] = ?k0 # ?news"
    by (simp add: snoc_eq_iff_butlast del: butlast.simps last.simps)
  from undo_many [OF cur r us] have u: "current_annotation ?u = Some r"
    "length (heap ?u) = length (heap ?e)"
    "keypoints (heap ?u ! r) = ?k0"
    "redo_stack ?u = redo_stack ?e @ rev ?news"
    unfolding n kp tl by simp_all
  from u(2) r have r': "r < length (heap ?u)" by simp
  have "length ?news = length edits" by simp
  with redo_many [OF u(1) r' u(4)] u(3) kp show ?thesis
    by simp
qed

text \<open>The operations that snapshot first are recorded edits.\<close>

lemma clear_keypoints_recorded:
  assumes "current_annotation s = Some r"
  shows "clear_keypoints s
    = (\<lambda>t. t\<lparr>unsaved_changes := True\<rparr>) (set_keypoints r [] (save_state s))"
  using assms by (simp add: clear_keypoints_def Let_def)

lemma add_keypoint_recorded:
  assumes "current_annotation s = Some r" and "0 < scale_factor s" and "edit_mode s = Add"
  shows "on_canvas_click img_x img_y s
    = Inr ((\<lambda>t. t\<lparr>unsaved_changes := True\<rparr>)
            (set_keypoints r
               (keypoints (heap s ! r) @
                  [if format_mode s = Coco
                   then KList [Num img_x, Num img_y, Num (visibility_var s)]
                   else KList [Num img_x, Num img_y]])
               (save_state s)))"
proof -
  have "visibility_var (save_state s) = visibility_var s"
    by (simp add: save_state_def Let_def split: option.splits)
  with assms show ?thesis
    by (simp add: on_canvas_click_def Let_def)
qed

lemma delete_keypoint_recorded:
  assumes "current_annotation s = Some r" and "0 < scale_factor s" and "edit_mode s = Delete"
    and "nearest_scan img_x img_y 0 (keypoints (heap s ! r)) None None = Inr (Some i)"
  shows "on_canvas_click img_x img_y s
    = Inr ((\<lambda>t. t\<lparr>selected_keypoint := None, unsaved_changes := True\<rparr>)
            (set_keypoints r (pop_at i (keypoints (heap s ! r))) (save_state s)))"
  using assms by (simp add: on_canvas_click_def Let_def)

lemma drag_recorded:
  assumes "current_annotation s = Some r" and "0 < scale_factor s" and "edit_mode s = Move"
    and "selected_keypoint s = Some sel" and "sel < length (keypoints (heap s ! r))"
    and "\<not> drag_state_saved s"
  shows "on_canvas_drag img_x img_y s
    = Inr ((\<lambda>t. t\<lparr>drag_state_saved := True, unsaved_changes := True\<rparr>)
            (set_keypoints r ((keypoints (heap s ! r))[sel := KList [Num img_x, Num img_y]])
               (save_state s)))"
  using assms by (simp add: on_canvas_drag_def Let_def set_keypoints_def save_state_def)

lemma copy_from_previous_v2_recorded:
  assumes "copy_from_previous_frame_v2 rel amp s = Inr (NoDialog, s')"
    and "current_annotation s = Some r"
  shows "\<exists>new. s' = (\<lambda>t. t\<lparr>unsaved_changes := True\<rparr>) (set_keypoints r new (save_state s))"
  using assms
  by (auto simp: copy_from_previous_frame_v2_def Let_def split: option.splits if_splits)

section \<open>Properties of copy-from-previous\<close>

text \<open>
  C2. The claim is that every mutating operation, copy-from-previous included, pushes one
  undo snapshot before it mutates, so that one undo per operation restores the original
  list. \<^verbatim>\<open>copy_from_previous_frame\<close> of keypoint_labeler.py pushes none: on the demo
  session it replaces the current record's keypoints by those of the previous image and
  leaves the undo stack empty, so the following undo finds nothing to undo and the
  original list is lost. (The operations that do snapshot first, see
  \<open>undo_redo_inverse\<close>, are undone and redone exactly.)
\<close>

theorem copy_from_previous_v1_not_undoable:
  "keypoints (heap demo_app ! 1) = [KList [Num 1, Num 1, Num 1], KList [Num 4, Num 6, Num 2]]
   \<and> (case copy_from_previous_frame_v1 Some demo_app of
        Inl e \<Rightarrow> False
      | Inr (d, s1) \<Rightarrow>
          d = NoDialog
          \<and> keypoints (heap s1 ! 1) = [KList [Num 7, Num 8]]
          \<and> undo_stack s1 = []
          \<and> undo_action s1 = (ShowInfo ''Nothing to undo'', s1))"
  by (simp add: demo_app_def copy_from_previous_frame_v1_def find_prev_annotation_v1_def
      lookup_truthy_def falsy_path_def set_keypoints_def undo_action_def Let_def)

text \<open>The later version saves the state first: there the same copy is undone by one undo.\<close>

lemma copy_from_previous_v2_undoable:
  "(case copy_from_previous_frame_v2 Some Some demo_app of
      Inl e \<Rightarrow> False
    | Inr (d, s1) \<Rightarrow>
        d = NoDialog
        \<and> keypoints (heap s1 ! 1) = [KList [Num 7, Num 8, Num 2]]
        \<and> keypoints (heap (snd (undo_action s1)) ! 1) = [KList [Num 1, Num 1, Num 1], KList [Num 4, Num 6, Num 2]])"
  by (simp add: demo_app_def copy_from_previous_frame_v2_def find_prev_annotation_v2_def
      lookup_truthy_def falsy_path_def set_keypoints_def undo_action_def save_state_def
      max_history_def clean_keypoint_def Let_def)

text \<open>
  C3. The claim is that a copy-from-previous that fails because the previous image has
  no record (or no keypoints) leaves all state unchanged, the undo and redo stacks
  included. In keypoint_labelerv2.py the snapshot is taken before the record is looked
  up: with a document that has no record for \<^verbatim>\<open>f0.jpg\<close> and one redoable state (an added keypoint that was
  undone), the failed copy reports its warning, but has pushed the current keypoints on the undo stack and emptied the redo
  stack.
\<close>

theorem copy_from_previous_v2_failure_changes_history:
  "copy_from_previous_frame_v2 Some Some
     (demo_app
        \<lparr>heap :=
           [\<lparr>ann_image = ''f1.jpg'', width = Some 100, height = Some 100,
             keypoints = [KList [Num 1, Num 1, Num 1], KList [Num 4, Num 6, Num 2]]\<rparr>],
         annotations_data := Some [0],
         annotation_dict := [(''f1.jpg'', 0)],
         current_annotation := Some 0,
         redo_stack :=
           [[KList [Num 1, Num 1, Num 1], KList [Num 4, Num 6, Num 2],
             KList [Num 9, Num 9, Num 2]]]\<rparr>)
   = Inr (ShowWarning ''No annotation found for previous image'',
          demo_app
            \<lparr>heap :=
               [\<lparr>ann_image = ''f1.jpg'', width = Some 100, height = Some 100,
                 keypoints = [KList [Num 1, Num 1, Num 1], KList [Num 4, Num 6, Num 2]]\<rparr>],
             annotations_data := Some [0],
             annotation_dict := [(''f1.jpg'', 0)],
             current_annotation := Some 0,
             undo_stack := [[KList [Num 1, Num 1, Num 1], KList [Num 4, Num 6, Num 2]]],
             redo_stack := []\<rparr>)"
  by (simp add: demo_app_def copy_from_previous_frame_v2_def find_prev_annotation_v2_def
      lookup_truthy_def falsy_path_def filename_of_def first_match_def
      match_annotation_path_def normalize_path_def basename_def endswith_def
      segment_suffix_rule_def last_slice_def save_state_def max_history_def Let_def)

text \<open>The first version has no snapshot at all, and there a failed copy changes nothing.\<close>

lemma copy_from_previous_v1_failure_unchanged:
  assumes "copy_from_previous_frame_v1 rel s = Inr (d, s')" and "d \<noteq> NoDialog"
  shows "s' = s"
  using assms
  by (auto simp: copy_from_previous_frame_v1_def Let_def split: option.splits if_splits)

lemma copy_from_previous_v1_verbatim:
  assumes "copy_from_previous_frame_v1 rel s = Inr (NoDialog, s')"
    and "current_annotation s = Some r" and "r < length (heap s)"
  shows "\<exists>p. find_prev_annotation_v1 (annotation_dict s)
               (rel (image_list s ! (current_image_index s - 1)))
               (image_list s ! (current_image_index s - 1)) = Some p
           \<and> keypoints (heap s' ! r) = keypoints (heap s ! p)"
  using assms
  by (auto simp: copy_from_previous_frame_v1_def Let_def split: option.splits if_splits)





section \<open>Properties of the exports\<close>

text \<open>
  C1. The claim is that the COCO export of a record with keypoints
  \<^verbatim>\<open>[[1,1,2], null, [3,3,0]]\<close> emits the flattened array \<^verbatim>\<open>[1,1,2,3,3,0]\<close> and
  \<^verbatim>\<open>num_keypoints: 2\<close>. The flattening loop takes \<^verbatim>\<open>len(kp)\<close> of every entry, so on
  this record it raises TypeError at the \<^verbatim>\<open>null\<close> entry and the export ends in its
  exception handler without writing anything.
\<close>

theorem export_to_coco_null_entry_raises:
  "export_to_coco
     [\<lparr>ann_image = ''a.jpg'', width = Some 100, height = Some 100,
       keypoints = [KList [Num 1, Num 1, Num 2], KNone, KList [Num 3, Num 3, Num 0]]\<rparr>]
   = Inl TypeError"
  by (simp add: export_to_coco_def coco_image_entry_def coco_entry_def get_or_def trunc_def
      Let_def)

text \<open>
  An entry that the loop does skip is one of fewer than two elements: the flattened
  array then is \<^verbatim>\<open>[1,1,2,3,3,0]\<close>, and \<^verbatim>\<open>num_keypoints\<close> is the length of the whole
  list, 3.
\<close>

lemma export_to_coco_short_entry:
  "map_sum id (\<lambda>c. map (\<lambda>a. (ca_keypoints a, ca_num_keypoints a)) (coco_annotations c))
     (export_to_coco
        [\<lparr>ann_image = ''a.jpg'', width = Some 100, height = Some 100,
          keypoints = [KList [Num 1, Num 1, Num 2], KList [], KList [Num 3, Num 3, Num 0]]\<rparr>])
   = Inr [([1, 1, 2, 3, 3, 0], 3)]"
  by (simp add: export_to_coco_def coco_image_entry_def coco_annotation_entry_def
      coco_entry_def get_or_def trunc_def py_min_def py_max_def Let_def)

lemma coco_flatten_KNone:
  "KNone \<in> set kps \<Longrightarrow> \<exists>e. coco_flatten kps acc = Inl e"
proof (induction kps arbitrary: acc)
  case Nil
  then show ?case by simp
next
  case (Cons kp kps)
  show ?case
  proof (cases "coco_entry kp")
    case (Inl e)
    then show ?thesis by simp
  next
    case (Inr vs)
    then have "kp \<noteq> KNone" by (auto simp: coco_entry_def)
    with Cons.prems have "KNone \<in> set kps" by simp
    from Cons.IH [OF this] Inr show ?thesis by simp
  qed
qed

lemma export_to_coco_KNone:
  assumes "ann_image ann \<noteq> []" and "KNone \<in> set (keypoints ann)"
  shows "\<exists>e. export_to_coco (ann # anns) = Inl e"
proof -
  from coco_flatten_KNone [OF assms(2)] obtain e
    where "coco_flatten (keypoints ann) [] = Inl e" by blast
  with assms(1) show ?thesis
    by (simp add: export_to_coco_def Let_def)
qed






section \<open>Properties of the native save\<close>




section \<open>Properties of the batch copy\<close>

lemma copy_to_frame_frame [simp]:
  "image_list (copy_to_frame rel amp kps p s) = image_list s"
  "current_image_index (copy_to_frame rel amp kps p s) = current_image_index s"
  by (simp_all add: copy_to_frame_def set_keypoints_def Let_def split: option.splits)
















end
